theory Spec2Isabelle
  imports Main "HOL-Library.Log_Nat"
begin

section \<open>Python values and exceptions\<close>

text \<open>
  The page is one Python module: two provider wrappers (\<open>get_stock_data\<close>,
  \<open>get_company_info\<close>), the formatter \<open>format_market_cap\<close> and the render function
  \<open>main\<close>. Exceptions of the source are values of \<open>error\<close>; a computation that may raise
  has a result of type \<open>error + 'a\<close> with \<open>Inl\<close> for the exception.
\<close>

datatype error =
    OverflowError
  | TypeError
  | ValueError
  | KeyError string
  | IndexError
  | UnboundLocalError

definition bindE :: "error + 'a \<Rightarrow> ('a \<Rightarrow> error + 'b) \<Rightarrow> error + 'b" where
  "bindE r f = (case r of Inl e \<Rightarrow> Inl e | Inr x \<Rightarrow> f x)"

section \<open>Binary64 arithmetic\<close>

text \<open>
  A Python \<open>float\<close> (and a numpy \<open>float64\<close>) is an IEEE-754 binary64 number. A finite
  one is \<open>Finite s m e\<close>: sign bit \<open>s\<close> (\<open>True\<close> is negative), significand \<open>0 \<le> m < 2^53\<close>
  and exponent \<open>- 1074 \<le> e \<le> 971\<close>, of value \<open>m * 2^e\<close>; normal numbers have
  \<open>2^52 \<le> m\<close>, subnormal ones and the two zeros have \<open>e = - 1074\<close>. All arithmetic is on
  integers, and every operation rounds its exact result to nearest, ties to even.
\<close>

datatype float64 = Finite bool int int | Infinity bool | NaN

text \<open>Nearest integer to \<open>p / q\<close> for \<open>0 < q\<close>, ties to the even neighbour.\<close>

definition rne_div :: "int \<Rightarrow> int \<Rightarrow> int" where
  "rne_div p q =
     (if 2 * (p mod q) < q then p div q
      else if q < 2 * (p mod q) then p div q + 1
      else if even (p div q) then p div q else p div q + 1)"

text \<open>Nearest integer to \<open>p / q * 2^t\<close>, ties to even.\<close>

definition rne_scaled :: "int \<Rightarrow> int \<Rightarrow> int \<Rightarrow> int" where
  "rne_scaled p q t = (if 0 \<le> t then rne_div (p * 2 ^ nat t) q else rne_div p (q * 2 ^ nat (- t)))"

text \<open>Whether \<open>2^e \<le> p / q\<close>, for \<open>0 < q\<close>.\<close>

definition ge_pow2 :: "int \<Rightarrow> int \<Rightarrow> int \<Rightarrow> bool" where
  "ge_pow2 p q e = (if 0 \<le> e then q * 2 ^ nat e \<le> p else q \<le> p * 2 ^ nat (- e))"

text \<open>\<open>\<lfloor>log\<^sub>2 (p / q)\<rfloor>\<close> for positive \<open>p\<close> and \<open>q\<close>.\<close>

definition ilog2 :: "int \<Rightarrow> int \<Rightarrow> int" where
  "ilog2 p q =
     (if ge_pow2 p q (bitlen p - bitlen q) then bitlen p - bitlen q
      else bitlen p - bitlen q - 1)"

text \<open>
  The exponent of the binary64 number nearest to \<open>p / q * 2^sh\<close>: 52 below the leading
  bit, and never below that of the subnormal numbers.
\<close>

definition expo :: "int \<Rightarrow> int \<Rightarrow> int \<Rightarrow> int" where
  "expo p q sh = max (ilog2 p q + sh - 52) (- 1074)"

text \<open>
  A rounded significand \<open>m \<le> 2^53\<close> with its exponent: the carry into the next binade
  is renormalised, and an exponent above 971 is an overflow to infinity.
\<close>

definition pack :: "bool \<Rightarrow> int \<Rightarrow> int \<Rightarrow> float64" where
  "pack s m k =
     (if m = 2 ^ 53 then (if 971 < k + 1 then Infinity s else Finite s (2 ^ 52) (k + 1))
      else if 971 < k then Infinity s else Finite s m k)"

text \<open>
  \<open>round64 s p q sh\<close> is the binary64 number nearest to \<open>p / q * 2^sh\<close> (for \<open>0 \<le> p\<close>,
  \<open>0 < q\<close>), ties to even, with sign \<open>s\<close>.
\<close>

definition round64 :: "bool \<Rightarrow> int \<Rightarrow> int \<Rightarrow> int \<Rightarrow> float64" where
  "round64 s p q sh =
     (if p = 0 then Finite s 0 (- 1074)
      else pack s (rne_scaled p q (sh - expo p q sh)) (expo p q sh))"

text \<open>The signed significand of a finite float, shifted from exponent \<open>e\<close> down to \<open>e0\<close>.\<close>

definition shifted :: "bool \<Rightarrow> int \<Rightarrow> int \<Rightarrow> int \<Rightarrow> int" where
  "shifted s m e e0 = (if s then - m else m) * 2 ^ nat (e - e0)"

fun fneg :: "float64 \<Rightarrow> float64" where
  "fneg (Finite s m e) = Finite (\<not> s) m e"
| "fneg (Infinity s) = Infinity (\<not> s)"
| "fneg NaN = NaN"

text \<open>
  Addition. Adding a zero is exact and returns the other operand; two zeros give \<open>-0\<close>
  only when both are \<open>-0\<close>. Otherwise the exact sum \<open>N * 2^e\<close> of the aligned
  significands is rounded, and an exact cancellation gives \<open>+0\<close>.
\<close>

definition round_sum :: "int \<Rightarrow> int \<Rightarrow> float64" where
  "round_sum N e = (if N = 0 then Finite False 0 (- 1074) else round64 (N < 0) \<bar>N\<bar> 1 e)"

fun fadd :: "float64 \<Rightarrow> float64 \<Rightarrow> float64" where
  "fadd (Finite s a ea) (Finite t b eb) =
     (if a = 0 \<and> b = 0 then Finite (s \<and> t) 0 (- 1074)
      else if a = 0 then Finite t b eb
      else if b = 0 then Finite s a ea
      else round_sum (shifted s a ea (min ea eb) + shifted t b eb (min ea eb)) (min ea eb))"
| "fadd (Finite s a ea) (Infinity t) = Infinity t"
| "fadd (Infinity s) (Finite t b eb) = Infinity s"
| "fadd (Infinity s) (Infinity t) = (if s = t then Infinity s else NaN)"
| "fadd _ _ = NaN"

definition fsub :: "float64 \<Rightarrow> float64 \<Rightarrow> float64" where
  "fsub x y = fadd x (fneg y)"

fun fmul :: "float64 \<Rightarrow> float64 \<Rightarrow> float64" where
  "fmul (Finite s a ea) (Finite t b eb) = round64 (s \<noteq> t) (a * b) 1 (ea + eb)"
| "fmul (Finite s a ea) (Infinity t) = (if a = 0 then NaN else Infinity (s \<noteq> t))"
| "fmul (Infinity s) (Finite t b eb) = (if b = 0 then NaN else Infinity (s \<noteq> t))"
| "fmul (Infinity s) (Infinity t) = Infinity (s \<noteq> t)"
| "fmul _ _ = NaN"

text \<open>
  Division as numpy and the hardware do it: a zero divisor gives an infinity or a NaN. The
  only Python-level float division of the page has the nonzero literal divisors of
  \<open>format_market_cap\<close>, where ZeroDivisionError cannot arise.
\<close>

fun fdiv :: "float64 \<Rightarrow> float64 \<Rightarrow> float64" where
  "fdiv (Finite s a ea) (Finite t b eb) =
     (if b = 0 then (if a = 0 then NaN else Infinity (s \<noteq> t))
      else round64 (s \<noteq> t) a b (ea - eb))"
| "fdiv (Finite s a ea) (Infinity t) = Finite (s \<noteq> t) 0 (- 1074)"
| "fdiv (Infinity s) (Finite t b eb) = Infinity (s \<noteq> t)"
| "fdiv _ _ = NaN"

text \<open>\<open>a \<ge> b\<close> on floats: false as soon as one side is a NaN; the two zeros are equal.\<close>

fun fge :: "float64 \<Rightarrow> float64 \<Rightarrow> bool" where
  "fge (Finite s a ea) (Finite t b eb) =
     (shifted t b eb (min ea eb) \<le> shifted s a ea (min ea eb))"
| "fge (Finite s a ea) (Infinity t) = t"
| "fge (Infinity s) (Finite t b eb) = (\<not> s)"
| "fge (Infinity s) (Infinity t) = (t \<or> \<not> s)"
| "fge _ _ = False"

text \<open>\<open>a < b\<close> on floats, false as soon as one side is a NaN.\<close>

definition flt :: "float64 \<Rightarrow> float64 \<Rightarrow> bool" where
  "flt a b = (fge b a \<and> \<not> fge a b)"

text \<open>
  Integer square root, bit by bit from position \<open>k - 1\<close> down; the root of a \<open>b\<close>-bit
  number has at most \<open>(b + 1) div 2\<close> bits.
\<close>

definition isqrt_step :: "int \<Rightarrow> int \<Rightarrow> int \<Rightarrow> int" where
  "isqrt_step c n r = (if c * c \<le> n then c else r)"

fun isqrt_bits :: "nat \<Rightarrow> int \<Rightarrow> int \<Rightarrow> int" where
  "isqrt_bits k n r =
     (if k = 0 then r else isqrt_bits (k - 1) n (isqrt_step (r + 2 ^ (k - 1)) n r))"

declare isqrt_bits.simps [simp del]

definition isqrt :: "int \<Rightarrow> int" where
  "isqrt n = isqrt_bits (nat ((bitlen n + 1) div 2)) n 0"

text \<open>Twice the integer root \<open>r\<close> of \<open>M\<close>, plus a sticky bit when the root is inexact.\<close>

definition sticky_root :: "int \<Rightarrow> int \<Rightarrow> int" where
  "sticky_root M r = 2 * r + (if r * r = M then 0 else 1)"

text \<open>
  The correctly rounded square root. The significand is shifted to at least 110 bits with
  an even exponent left over, so that its integer root has 55 bits or more, and the sticky
  bit decides the final rounding.
\<close>

definition sqrt_arg :: "int \<Rightarrow> int \<Rightarrow> int" where
  "sqrt_arg m e = m * 2 ^ nat (110 + e mod 2)"

fun fsqrt :: "float64 \<Rightarrow> float64" where
  "fsqrt (Finite s m e) =
     (if m = 0 then Finite s 0 (- 1074)
      else if s then NaN
      else round64 False (sticky_root (sqrt_arg m e) (isqrt (sqrt_arg m e))) 1
             ((e - (110 + e mod 2)) div 2 - 1))"
| "fsqrt (Infinity s) = (if s then NaN else Infinity False)"
| "fsqrt NaN = NaN"

text \<open>
  \<open>float(n)\<close> for a Python integer: the nearest binary64 number, and OverflowError
  (``int too large to convert to float'') where that would be an infinity.
\<close>

definition float_of_int :: "int \<Rightarrow> error + float64" where
  "float_of_int n =
     (case round64 (n < 0) \<bar>n\<bar> 1 0 of
        Infinity _ \<Rightarrow> Inl OverflowError
      | v \<Rightarrow> Inr v)"

text \<open>A float literal with an integral value, such as \<open>1e12\<close> or \<open>100.0\<close>.\<close>

definition float_lit :: "int \<Rightarrow> float64" where
  "float_lit n = round64 (n < 0) \<bar>n\<bar> 1 0"

section \<open>Formatting numbers\<close>

definition digit_char :: "nat \<Rightarrow> char" where
  "digit_char d = ''0123456789'' ! d"

fun decimal :: "nat \<Rightarrow> string" where
  "decimal n = (if n < 10 then [digit_char n] else decimal (n div 10) @ [digit_char (n mod 10)])"

declare decimal.simps [simp del]

text \<open>The \<open>,\<close> option of the format mini-language: a comma before every group of three digits.\<close>

fun group3 :: "string \<Rightarrow> string" where
  "group3 ds =
     (if length ds \<le> 3 then ds
      else group3 (take (length ds - 3) ds) @ CHR '','' # drop (length ds - 3) ds)"

declare group3.simps [simp del]

text \<open>The fraction digits, padded with zeros on the left to \<open>prec\<close> places.\<close>

definition frac_part :: "nat \<Rightarrow> string \<Rightarrow> string" where
  "frac_part prec fp =
     (if prec = 0 then [] else CHR ''.'' # replicate (prec - length fp) CHR ''0'' @ fp)"

text \<open>The digits of \<open>k / 10^prec\<close> for the rounded, scaled magnitude \<open>k\<close>.\<close>

definition format_digits :: "bool \<Rightarrow> nat \<Rightarrow> bool \<Rightarrow> nat \<Rightarrow> string" where
  "format_digits grp prec s k =
     (if s then ''-'' else []) @
     (if grp then group3 (decimal (k div 10 ^ prec)) else decimal (k div 10 ^ prec)) @
     frac_part prec (decimal (k mod 10 ^ prec))"

text \<open>
  \<open>format(v, '.<prec>f')\<close>, with the \<open>,\<close> option when \<open>grp\<close> holds: the exact value of
  the float rounded to \<open>prec\<close> decimals, ties to even; the sign is the sign bit, so that a
  negative value that rounds to zero still prints its minus.
\<close>

fun format_f :: "bool \<Rightarrow> nat \<Rightarrow> float64 \<Rightarrow> string" where
  "format_f grp prec (Finite s m e) =
     format_digits grp prec s (nat (rne_scaled (m * 10 ^ prec) 1 e))"
| "format_f grp prec (Infinity s) = (if s then ''-inf'' else ''inf'')"
| "format_f grp prec NaN = ''nan''"

text \<open>The values that flow through the page: strings, integers, floats and \<open>None\<close>.\<close>

datatype pyval = PStr string | PInt int | PFloat float64 | PNone

text \<open>\<open>x >= c\<close> for a float literal \<open>c\<close>. Python compares an integer with a float exactly.\<close>

fun int_ge_float :: "int \<Rightarrow> float64 \<Rightarrow> bool" where
  "int_ge_float n (Finite t b eb) =
     (if 0 \<le> eb then (if t then - b else b) * 2 ^ nat eb \<le> n
      else (if t then - b else b) \<le> n * 2 ^ nat (- eb))"
| "int_ge_float n (Infinity t) = t"
| "int_ge_float n NaN = False"

fun py_ge :: "pyval \<Rightarrow> float64 \<Rightarrow> error + bool" where
  "py_ge (PInt n) c = Inr (int_ge_float n c)"
| "py_ge (PFloat x) c = Inr (fge x c)"
| "py_ge (PStr _) c = Inl TypeError"
| "py_ge PNone c = Inl TypeError"

text \<open>\<open>x / c\<close> for a float \<open>c\<close>: an integer is converted to a float first.\<close>

fun py_truediv :: "pyval \<Rightarrow> float64 \<Rightarrow> error + float64" where
  "py_truediv (PInt n) c = bindE (float_of_int n) (\<lambda>x. Inr (fdiv x c))"
| "py_truediv (PFloat x) c = Inr (fdiv x c)"
| "py_truediv (PStr _) c = Inl TypeError"
| "py_truediv PNone c = Inl TypeError"

text \<open>An f-string field with an \<open>f\<close> presentation type.\<close>

fun py_format_f :: "bool \<Rightarrow> nat \<Rightarrow> pyval \<Rightarrow> error + string" where
  "py_format_f grp prec (PInt n) = bindE (float_of_int n) (\<lambda>x. Inr (format_f grp prec x))"
| "py_format_f grp prec (PFloat x) = Inr (format_f grp prec x)"
| "py_format_f grp prec (PStr _) = Inl ValueError"
| "py_format_f grp prec PNone = Inl TypeError"

section \<open>The market-cap formatter\<close>

definition format_market_cap :: "pyval \<Rightarrow> error + string" where
  "format_market_cap market_cap =
     bindE (py_ge market_cap (float_lit (10 ^ 12))) (\<lambda>t.
       if t then bindE (py_truediv market_cap (float_lit (10 ^ 12)))
                   (\<lambda>x. Inr (''$'' @ format_f False 2 x @ ''T''))
       else bindE (py_ge market_cap (float_lit (10 ^ 9))) (\<lambda>b.
         if b then bindE (py_truediv market_cap (float_lit (10 ^ 9)))
                     (\<lambda>x. Inr (''$'' @ format_f False 2 x @ ''B''))
         else bindE (py_ge market_cap (float_lit (10 ^ 6))) (\<lambda>m.
           if m then bindE (py_truediv market_cap (float_lit (10 ^ 6)))
                       (\<lambda>x. Inr (''$'' @ format_f False 2 x @ ''M''))
           else bindE (py_format_f True 0 market_cap) (\<lambda>s. Inr (''$'' @ s)))))"

section \<open>The company catalog\<close>

type_synonym company = string
type_synonym ticker = string

text \<open>
  A Python dictionary is an association list in insertion order; \<open>d[k] = v\<close> overwrites
  the entry of a key that is present and appends a new key at the end.
\<close>

fun dict_set :: "('k \<times> 'v) list \<Rightarrow> 'k \<Rightarrow> 'v \<Rightarrow> ('k \<times> 'v) list" where
  "dict_set [] k v = [(k, v)]"
| "dict_set ((k', v') # d) k v = (if k' = k then (k, v) # d else (k', v') # dict_set d k v)"

text \<open>\<open>d[k]\<close>, which raises KeyError on a missing key.\<close>

definition dict_get :: "(string \<times> 'v) list \<Rightarrow> string \<Rightarrow> error + 'v" where
  "dict_get d k = (case map_of d k of None \<Rightarrow> Inl (KeyError k) | Some v \<Rightarrow> Inr v)"

definition TOP_10_COMPANIES :: "(company \<times> ticker) list" where
  "TOP_10_COMPANIES =
     [(''Apple'', ''AAPL''), (''Microsoft'', ''MSFT''), (''Alphabet (Google)'', ''GOOGL''),
      (''Amazon'', ''AMZN''), (''NVIDIA'', ''NVDA''), (''Tesla'', ''TSLA''),
      (''Meta (Facebook)'', ''META''), (''Berkshire Hathaway'', ''BRK-B''),
      (''Taiwan Semiconductor'', ''TSM''), (''Visa'', ''V'')]"

definition AI_COMPANIES :: "(company \<times> ticker) list" where
  "AI_COMPANIES =
     [(''NVIDIA'', ''NVDA''), (''AMD'', ''AMD''), (''Palantir'', ''PLTR''),
      (''Snowflake'', ''SNOW''), (''ServiceNow'', ''NOW''), (''UiPath'', ''PATH''),
      (''C3.ai'', ''AI''), (''SoundHound AI'', ''SOUN''), (''Arm Holdings'', ''ARM''),
      (''Symbotic'', ''SYM'')]"

text \<open>
  The labels of the widgets are Korean text in the source; the choices are constructors
  here. \<open>COMPANY_GROUPS\<close> maps the radio button's label to its catalog, and
  \<open>period_options\<close> the select box's label to the provider's period string.
\<close>

datatype company_group = Top10 | NextGenAI

fun COMPANY_GROUPS :: "company_group \<Rightarrow> (company \<times> ticker) list" where
  "COMPANY_GROUPS Top10 = TOP_10_COMPANIES"
| "COMPANY_GROUPS NextGenAI = AI_COMPANIES"

datatype period = Years1 | Years2 | Years3 | Years5

fun period_options :: "period \<Rightarrow> string" where
  "period_options Years1 = ''1y''"
| "period_options Years2 = ''2y''"
| "period_options Years3 = ''3y''"
| "period_options Years5 = ''5y''"

datatype chart_type = LineChart | CandlestickChart

section \<open>The market-data provider and the page's output\<close>

text \<open>
  One row of the provider's history table: the index (a date) and the OHLCV columns.
\<close>

record bar =
  Date :: int
  Open :: float64
  High :: float64
  Low :: float64
  Close :: float64
  Volume :: int

type_synonym dataframe = "bar list"

text \<open>
  The provider is outside the program: \<open>history\<close> stands for
  \<open>yf.Ticker(ticker).history(period=period)\<close> and \<open>info\<close> for
  \<open>yf.Ticker(ticker).info\<close>. Either may raise (an exception derived from
  \<open>Exception\<close>, with its message) or return; a returned table may be empty, and a
  returned dictionary may lack any key.
\<close>

datatype exn = Exn string

record provider =
  history :: "ticker \<Rightarrow> string \<Rightarrow> exn + dataframe"
  info :: "ticker \<Rightarrow> exn + (string \<rightharpoonup> pyval)"

text \<open>
  What a render does is the list of its effects in order: the requests sent to the
  provider and the elements handed to the UI framework. The fixed texts of the page are
  constructors of \<open>message\<close> and \<open>heading\<close>. One render with an empty memoisation cache
  is modelled, so every call of a fetch function reaches the provider.
\<close>

datatype message =
    SelectAtLeastOne
  | NoDataLoaded
  | CandlestickSingleOnly
  | Disclaimer
  | FetchFailed ticker exn

datatype heading = CompanyInfo | PriceChart | Performance | VolumeAnalysis | MoreInfo

text \<open>
  The palette \<open>px.colors.qualitative.Set1\<close> of the charting library has nine colours; a
  colour is its index in the palette.
\<close>

datatype color = Set1 nat

definition Set1_palette :: "color list" where
  "Set1_palette = map Set1 [0..<9]"

datatype figure =
    LineFigure "(company \<times> color \<times> (int \<times> float64) list) list" period
  | CandlestickFigure company dataframe period
  | VolumeFigure "(company \<times> color \<times> (int \<times> int) list) list" period

record perf_row =
  row_company :: company
  start_price :: string
  current_price :: string
  total_return :: string
  highest :: string
  lowest :: string
  volatility :: string

datatype event =
    FetchHistory ticker string
  | FetchInfo ticker
  | Title
  | Markdown
  | Warning message
  | Error message
  | Info message
  | Header heading
  | Columns nat
  | Metric nat company string string
  | Caption nat pyval
  | PlotlyChart figure
  | Dataframe "perf_row list"

text \<open>Effects emitted so far, with a result or the exception that ended the computation.\<close>

type_synonym 'a io = "event list \<times> (error + 'a)"

definition emit :: "event list \<Rightarrow> 'a io \<Rightarrow> 'a io" where
  "emit evs r = (evs @ fst r, snd r)"

definition andThen :: "'a io \<Rightarrow> ('a \<Rightarrow> 'b io) \<Rightarrow> 'b io" where
  "andThen m f = (case snd m of Inl e \<Rightarrow> (fst m, Inl e) | Inr x \<Rightarrow> emit (fst m) (f x))"

section \<open>Fetching\<close>

text \<open>
  \<open>get_stock_data\<close> catches every \<open>Exception\<close>, shows it with \<open>st.error\<close> and returns
  \<open>None\<close>.
\<close>

definition get_stock_data :: "provider \<Rightarrow> ticker \<Rightarrow> string \<Rightarrow> event list \<times> dataframe option" where
  "get_stock_data P ticker period =
     (case history P ticker period of
        Inr data \<Rightarrow> ([FetchHistory ticker period], Some data)
      | Inl e \<Rightarrow> ([FetchHistory ticker period, Error (FetchFailed ticker e)], None))"

text \<open>\<open>info.get(key, default)\<close>.\<close>

definition py_get :: "(string \<rightharpoonup> pyval) \<Rightarrow> string \<Rightarrow> pyval \<Rightarrow> pyval" where
  "py_get d k dflt = (case d k of None \<Rightarrow> dflt | Some v \<Rightarrow> v)"

type_synonym company_info = "(string \<times> pyval) list"

definition get_company_info :: "provider \<Rightarrow> ticker \<Rightarrow> event list \<times> company_info" where
  "get_company_info P ticker =
     (case info P ticker of
        Inr d \<Rightarrow>
          ([FetchInfo ticker],
           [(''name'', py_get d ''longName'' (PStr ''N/A'')),
            (''sector'', py_get d ''sector'' (PStr ''N/A'')),
            (''marketCap'', py_get d ''marketCap'' (PInt 0)),
            (''currentPrice'', py_get d ''currentPrice'' (PInt 0))])
      | Inl e \<Rightarrow>
          ([FetchInfo ticker],
           [(''name'', PStr ''N/A''), (''sector'', PStr ''N/A''),
            (''marketCap'', PInt 0), (''currentPrice'', PInt 0)]))"

section \<open>Column statistics\<close>

text \<open>
  Modelled from the spec: \<open>Series.max\<close>, \<open>Series.min\<close> and \<open>Series.std\<close> belong to the
  data-frame library, outside the repository. The spec has ``max/min close, and sample
  standard deviation of closes''; the library skips NaN entries, gives NaN for a column
  without values, and divides by \<open>n - 1\<close>, so that a single value has no deviation (NaN).
  The sums run from left to right in binary64.
\<close>

definition dropna :: "float64 list \<Rightarrow> float64 list" where
  "dropna xs = filter (\<lambda>v. v \<noteq> NaN) xs"

definition fmax :: "float64 \<Rightarrow> float64 \<Rightarrow> float64" where
  "fmax a b = (if fge a b then a else b)"

definition fmin :: "float64 \<Rightarrow> float64 \<Rightarrow> float64" where
  "fmin a b = (if fge b a then a else b)"

definition series_max :: "float64 list \<Rightarrow> float64" where
  "series_max xs = (case dropna xs of [] \<Rightarrow> NaN | v # vs \<Rightarrow> foldl fmax v vs)"

definition series_min :: "float64 list \<Rightarrow> float64" where
  "series_min xs = (case dropna xs of [] \<Rightarrow> NaN | v # vs \<Rightarrow> foldl fmin v vs)"

definition fsum :: "float64 list \<Rightarrow> float64" where
  "fsum xs = (case xs of [] \<Rightarrow> Finite False 0 (- 1074) | v # vs \<Rightarrow> foldl fadd v vs)"

definition fsquare :: "float64 \<Rightarrow> float64" where
  "fsquare x = fmul x x"

definition sample_std :: "float64 list \<Rightarrow> float64 \<Rightarrow> float64" where
  "sample_std vs mean =
     fsqrt (fdiv (fsum (map (\<lambda>v. fsquare (fsub mean v)) vs)) (float_lit (int (length vs) - 1)))"

definition series_std :: "float64 list \<Rightarrow> float64" where
  "series_std xs =
     (if length (dropna xs) \<le> 1 then NaN
      else sample_std (dropna xs) (fdiv (fsum (dropna xs)) (float_lit (int (length (dropna xs))))))"

section \<open>The render\<close>

text \<open>The fetch loop: a company is kept when its table is neither \<open>None\<close> nor empty.\<close>

definition usable :: "dataframe option \<Rightarrow> bool" where
  "usable data = (case data of None \<Rightarrow> False | Some rows \<Rightarrow> rows \<noteq> [])"

type_synonym stock_data = "(company \<times> dataframe) list"

fun load_loop ::
  "provider \<Rightarrow> (company \<times> ticker) list \<Rightarrow> string \<Rightarrow> company list \<Rightarrow>
   stock_data \<Rightarrow> (company \<times> company_info) list \<Rightarrow> (stock_data \<times> (company \<times> company_info) list) io"
where
  "load_loop P companies_dict per [] sd ci = ([], Inr (sd, ci))"
| "load_loop P companies_dict per (company # rest) sd ci =
     (case map_of companies_dict company of
        None \<Rightarrow> ([], Inl (KeyError company))
      | Some ticker \<Rightarrow>
          emit (fst (get_stock_data P ticker per) @ fst (get_company_info P ticker))
            (if usable (snd (get_stock_data P ticker per))
             then load_loop P companies_dict per rest
                    (dict_set sd company (the (snd (get_stock_data P ticker per))))
                    (dict_set ci company (snd (get_company_info P ticker)))
             else load_loop P companies_dict per rest sd ci))"

text \<open>
  One metric card: the price with two decimals, the formatted market capitalisation and
  the sector. The arguments of \<open>st.metric\<close> are evaluated before the call, the price first.
\<close>

definition metric_card :: "nat \<Rightarrow> company \<Rightarrow> company_info \<Rightarrow> error + event list" where
  "metric_card i company entry =
     bindE (dict_get entry ''currentPrice'') (\<lambda>price.
     bindE (py_format_f False 2 price) (\<lambda>value.
     bindE (dict_get entry ''marketCap'') (\<lambda>cap.
     bindE (format_market_cap cap) (\<lambda>delta.
     bindE (dict_get entry ''sector'') (\<lambda>sector.
       Inr [Metric i company (''$'' @ value) delta, Caption i sector])))))"

text \<open>The cards are laid out for every selected company, looked up in \<open>company_info\<close>.\<close>

fun metric_cards :: "nat \<Rightarrow> company list \<Rightarrow> (company \<times> company_info) list \<Rightarrow> unit io" where
  "metric_cards i [] ci = ([], Inr ())"
| "metric_cards i (company # rest) ci =
     (case bindE (dict_get ci company) (metric_card i company) of
        Inl e \<Rightarrow> ([], Inl e)
      | Inr evs \<Rightarrow> emit evs (metric_cards (Suc i) rest ci))"

text \<open>The traces of the line chart; \<open>colors[i]\<close> raises IndexError beyond the list.\<close>

fun line_traces ::
  "color list \<Rightarrow> nat \<Rightarrow> stock_data \<Rightarrow> error + (company \<times> color \<times> (int \<times> float64) list) list"
where
  "line_traces colors i [] = Inr []"
| "line_traces colors i ((company, data) # rest) =
     (if i < length colors
      then bindE (line_traces colors (Suc i) rest)
             (\<lambda>ts. Inr ((company, colors ! i, map (\<lambda>b. (Date b, Close b)) data) # ts))
      else Inl IndexError)"

text \<open>
  The chart step returns the local variable \<open>colors\<close>, which only the line-chart branch
  assigns. In the candlestick branch the notice precedes the chart.
\<close>

fun price_chart ::
  "chart_type \<Rightarrow> company list \<Rightarrow> period \<Rightarrow> stock_data \<Rightarrow> color list option io"
where
  "price_chart LineChart selected_companies per sd =
     (case line_traces (Set1_palette @ Set1_palette) 0 sd of
        Inl e \<Rightarrow> ([], Inl e)
      | Inr ts \<Rightarrow> ([PlotlyChart (LineFigure ts per)], Inr (Some (Set1_palette @ Set1_palette))))"
| "price_chart CandlestickChart selected_companies per sd =
     (case selected_companies of
        [] \<Rightarrow> ([], Inl IndexError)
      | company # _ \<Rightarrow>
          (case dict_get sd company of
             Inl e \<Rightarrow> ([], Inl e)
           | Inr data \<Rightarrow>
               ((if 1 < length selected_companies then [Info CandlestickSingleOnly] else []) @
                [PlotlyChart (CandlestickFigure company data per)], Inr None)))"

text \<open>The percent change of the summary, in numpy's binary64 arithmetic.\<close>

definition percent_change :: "float64 \<Rightarrow> float64 \<Rightarrow> float64" where
  "percent_change start final = fmul (fdiv (fsub final start) start) (float_lit 100)"

text \<open>One row of the summary; \<open>iloc[0]\<close> raises IndexError on a column without rows.\<close>

definition performance_row :: "company \<Rightarrow> dataframe \<Rightarrow> error + perf_row" where
  "performance_row company data =
     (if data = [] then Inl IndexError
      else Inr \<lparr> row_company = company,
                 start_price = ''$'' @ format_f False 2 (Close (hd data)),
                 current_price = ''$'' @ format_f False 2 (Close (last data)),
                 total_return = format_f False 2 (percent_change (Close (hd data)) (Close (last data))) @ ''%'',
                 highest = ''$'' @ format_f False 2 (series_max (map Close data)),
                 lowest = ''$'' @ format_f False 2 (series_min (map Close data)),
                 volatility = format_f False 2 (series_std (map Close data)) \<rparr>)"

fun performance_rows :: "stock_data \<Rightarrow> error + perf_row list" where
  "performance_rows [] = Inr []"
| "performance_rows ((company, data) # rest) =
     bindE (performance_row company data) (\<lambda>r.
     bindE (performance_rows rest) (\<lambda>rs. Inr (r # rs)))"

definition performance_table :: "stock_data \<Rightarrow> unit io" where
  "performance_table sd =
     (case performance_rows sd of
        Inl e \<Rightarrow> ([], Inl e)
      | Inr rows \<Rightarrow> ([Dataframe rows], Inr ()))"

text \<open>
  The traces of the volume chart read \<open>colors[i % len(colors)]\<close>; where \<open>colors\<close> was never
  assigned the read raises UnboundLocalError.
\<close>

fun volume_traces ::
  "color list option \<Rightarrow> nat \<Rightarrow> stock_data \<Rightarrow> error + (company \<times> color \<times> (int \<times> int) list) list"
where
  "volume_traces colors i [] = Inr []"
| "volume_traces colors i ((company, data) # rest) =
     (case colors of
        None \<Rightarrow> Inl UnboundLocalError
      | Some cs \<Rightarrow>
          bindE (volume_traces colors (Suc i) rest)
            (\<lambda>ts. Inr ((company, cs ! (i mod length cs), map (\<lambda>b. (Date b, Volume b)) data) # ts)))"

definition volume_chart :: "color list option \<Rightarrow> period \<Rightarrow> stock_data \<Rightarrow> unit io" where
  "volume_chart colors per sd =
     (case volume_traces colors 0 sd of
        Inl e \<Rightarrow> ([], Inl e)
      | Inr ts \<Rightarrow> ([PlotlyChart (VolumeFigure ts per)], Inr ()))"

text \<open>
  The render function. Its arguments are the current values of the four sidebar widgets; a
  \<open>return\<close> before the end of the page is the outcome \<open>Halted\<close>.
\<close>

datatype outcome = Finished | Halted

definition render_page ::
  "company list \<Rightarrow> period \<Rightarrow> chart_type \<Rightarrow> stock_data \<Rightarrow> (company \<times> company_info) list \<Rightarrow> outcome io"
where
  "render_page selected_companies selected_period chart_type sd ci =
     andThen (emit [Header CompanyInfo, Columns (length selected_companies)]
                (metric_cards 0 selected_companies ci)) (\<lambda>_.
     andThen (emit [Header PriceChart]
                (price_chart chart_type selected_companies selected_period sd)) (\<lambda>colors.
     andThen (emit [Header Performance] (performance_table sd)) (\<lambda>_.
     andThen (emit [Header VolumeAnalysis] (volume_chart colors selected_period sd)) (\<lambda>_.
       ([Header MoreInfo, Info Disclaimer], Inr Finished)))))"

definition main ::
  "provider \<Rightarrow> company_group \<Rightarrow> company list \<Rightarrow> period \<Rightarrow> chart_type \<Rightarrow> outcome io"
where
  "main P company_group selected_companies selected_period chart_type =
     emit [Title, Markdown]
       (if selected_companies = [] then ([Warning SelectAtLeastOne], Inr Halted)
        else andThen (load_loop P (COMPANY_GROUPS company_group) (period_options selected_period)
                        selected_companies [] [])
               (\<lambda>loaded.
                  if fst loaded = [] then ([Error NoDataLoaded], Inr Halted)
                  else render_page selected_companies selected_period chart_type
                         (fst loaded) (snd loaded)))"

section \<open>Reading a trace\<close>

text \<open>
  The historical-data fetch of a ticker fails when the provider raises or returns an empty
  table.
\<close>

definition fetch_fails :: "provider \<Rightarrow> ticker \<Rightarrow> string \<Rightarrow> bool" where
  "fetch_fails P ticker per = (case history P ticker per of Inl e \<Rightarrow> True | Inr rows \<Rightarrow> rows = [])"

text \<open>The effects of the fetch loop: the two requests, and the error line of a failed one.\<close>

fun is_fetch :: "event \<Rightarrow> bool" where
  "is_fetch (FetchHistory t p) = True"
| "is_fetch (FetchInfo t) = True"
| "is_fetch (Error (FetchFailed t e)) = True"
| "is_fetch _ = False"

text \<open>The elements of a metric card.\<close>

fun is_card :: "event \<Rightarrow> bool" where
  "is_card (Metric i c v d) = True"
| "is_card (Caption i s) = True"
| "is_card _ = False"

text \<open>What the page displays about companies: metric cards, charts and tables.\<close>

fun is_display :: "event \<Rightarrow> bool" where
  "is_display (Metric i c v d) = True"
| "is_display (Caption i s) = True"
| "is_display (PlotlyChart f) = True"
| "is_display (Dataframe rows) = True"
| "is_display _ = False"

section \<open>Sample providers and tables\<close>

text \<open>A table whose four price columns all hold the given closes.\<close>

definition flat_bars :: "float64 list \<Rightarrow> dataframe" where
  "flat_bars closes =
     map (\<lambda>c. \<lparr> Date = 0, Open = c, High = c, Low = c, Close = c, Volume = 1000 \<rparr>) closes"

text \<open>A provider that is unreachable: both operations raise.\<close>

definition offline :: provider where
  "offline = \<lparr> history = (\<lambda>t p. Inl (Exn ''unreachable'')),
                info = (\<lambda>t. Inl (Exn ''unreachable'')) \<rparr>"

text \<open>A provider whose snapshot has a name and a market capitalisation only.\<close>

definition partial_info :: provider where
  "partial_info =
     \<lparr> history = (\<lambda>t p. Inr []),
       info = (\<lambda>t. Inr [''longName'' \<mapsto> PStr ''Apple Inc.'', ''marketCap'' \<mapsto> PInt 2500000000]) \<rparr>"

text \<open>A provider whose history fails for one ticker and has two rows for every other.\<close>

definition flaky :: provider where
  "flaky =
     \<lparr> history = (\<lambda>t p. if t = ''MSFT'' then Inl (Exn ''timeout'')
                          else Inr (flat_bars [float_lit 100, float_lit 110])),
       info = (\<lambda>t. Inl (Exn ''unreachable'')) \<rparr>"

text \<open>The same, with an empty table in place of the exception.\<close>

definition patchy :: provider where
  "patchy =
     \<lparr> history = (\<lambda>t p. if t = ''MSFT'' then Inr []
                          else Inr (flat_bars [float_lit 100, float_lit 110])),
       info = (\<lambda>t. Inl (Exn ''unreachable'')) \<rparr>"


section \<open>The snapshot fetch\<close>

text \<open>
  Claim C7. Whenever the snapshot request raises, whatever the ticker and the exception,
  \<open>get_company_info\<close> returns the placeholder record (name and sector \<open>'N/A'\<close>, market
  capitalisation and price \<open>0\<close>). Its only effect is the request itself: no error element
  is shown, and there is no exception, since the function has no failing result.
\<close>

theorem get_company_info_placeholder:
  assumes "info P ticker = Inl e"
  shows "get_company_info P ticker =
           ([FetchInfo ticker],
            [(''name'', PStr ''N/A''), (''sector'', PStr ''N/A''),
             (''marketCap'', PInt 0), (''currentPrice'', PInt 0)])"
  using assms by (simp add: get_company_info_def)

theorem get_company_info_placeholder_witness:
  "info offline ''AAPL'' = Inl (Exn ''unreachable'') \<and>
   get_company_info offline ''AAPL'' =
     ([FetchInfo ''AAPL''],
      [(''name'', PStr ''N/A''), (''sector'', PStr ''N/A''),
       (''marketCap'', PInt 0), (''currentPrice'', PInt 0)])"
proof -
  have h: "info offline ''AAPL'' = Inl (Exn ''unreachable'')"
    by (simp add: offline_def)
  show ?thesis
    using h get_company_info_placeholder [OF h] by simp
qed

text \<open>
  Claim C10. The record returned by \<open>get_company_info\<close> always has exactly the four keys
  \<open>name\<close>, \<open>sector\<close>, \<open>marketCap\<close> and \<open>currentPrice\<close>, in this order. When the request
  succeeds, each field is the provider's value for \<open>longName\<close>, \<open>sector\<close>, \<open>marketCap\<close>,
  \<open>currentPrice\<close> where the response has that key, and the placeholder (\<open>'N/A'\<close>, \<open>'N/A'\<close>,
  \<open>0\<close>, \<open>0\<close>) where it has not: the substitution is field by field.
\<close>

theorem get_company_info_fields:
  "map fst (snd (get_company_info P ticker)) = [''name'', ''sector'', ''marketCap'', ''currentPrice'']
   \<and> (\<forall>d. info P ticker = Inr d \<longrightarrow>
          map snd (snd (get_company_info P ticker)) =
            [case d ''longName'' of None \<Rightarrow> PStr ''N/A'' | Some v \<Rightarrow> v,
             case d ''sector'' of None \<Rightarrow> PStr ''N/A'' | Some v \<Rightarrow> v,
             case d ''marketCap'' of None \<Rightarrow> PInt 0 | Some v \<Rightarrow> v,
             case d ''currentPrice'' of None \<Rightarrow> PInt 0 | Some v \<Rightarrow> v])"
  by (cases "info P ticker") (simp_all add: get_company_info_def py_get_def)

theorem get_company_info_fields_witness:
  "(\<exists>d. info partial_info ''AAPL'' = Inr d) \<and>
   snd (get_company_info partial_info ''AAPL'') =
     [(''name'', PStr ''Apple Inc.''), (''sector'', PStr ''N/A''),
      (''marketCap'', PInt 2500000000), (''currentPrice'', PInt 0)]"
proof -
  let ?d = "[''longName'' \<mapsto> PStr ''Apple Inc.'', ''marketCap'' \<mapsto> PInt 2500000000]"
  have h: "info partial_info ''AAPL'' = Inr ?d"
    by (simp add: partial_info_def)
  have keys: "map fst (snd (get_company_info partial_info ''AAPL'')) =
                [''name'', ''sector'', ''marketCap'', ''currentPrice'']"
    using get_company_info_fields [of partial_info "''AAPL''"] by blast
  have vals: "map snd (snd (get_company_info partial_info ''AAPL'')) =
                [PStr ''Apple Inc.'', PStr ''N/A'', PInt 2500000000, PInt 0]"
    using get_company_info_fields [of partial_info "''AAPL''"] h by simp
  have "snd (get_company_info partial_info ''AAPL'') =
          zip (map fst (snd (get_company_info partial_info ''AAPL'')))
              (map snd (snd (get_company_info partial_info ''AAPL'')))"
    by (simp add: zip_map_fst_snd)
  then show ?thesis
    using h keys vals by simp
qed

section \<open>No selection\<close>

text \<open>
  Claim C5. With no company selected the render shows the warning and returns at once:
  after the title and the introduction the warning is the only element. No request is sent
  to the provider (neither fetch function is called) and no chart or table is produced.
\<close>

theorem main_no_selection:
  "main P company_group [] selected_period chart_type =
     ([Title, Markdown, Warning SelectAtLeastOne], Inr Halted)"
  by (simp add: main_def emit_def)

section \<open>The fetch loop and the metric cards\<close>

lemma usable_get_stock_data:
  "usable (snd (get_stock_data P t per)) \<longleftrightarrow> \<not> fetch_fails P t per"
  by (cases "history P t per") (simp_all add: usable_def get_stock_data_def fetch_fails_def)

lemma get_stock_data_events:
  "\<forall>ev\<in>set (fst (get_stock_data P t per)). is_fetch ev"
  by (cases "history P t per") (simp_all add: get_stock_data_def)

lemma get_company_info_events:
  "fst (get_company_info P t) = [FetchInfo t]"
  by (cases "info P t") (simp_all add: get_company_info_def)

lemma load_loop_events:
  "\<forall>ev\<in>set (fst (load_loop P dict per cs sd ci)). is_fetch ev"
proof (induction cs arbitrary: sd ci)
  case Nil
  show ?case by simp
next
  case (Cons c cs)
  show ?case
    using Cons.IH get_stock_data_events [of P _ per]
    by (auto simp: emit_def get_company_info_events split: option.splits)
qed

lemma load_loop_none_usable:
  assumes "\<forall>c\<in>set cs. \<exists>t. map_of dict c = Some t \<and> fetch_fails P t per"
  shows "snd (load_loop P dict per cs sd ci) = Inr (sd, ci)"
  using assms
proof (induction cs)
  case Nil
  show ?case by simp
next
  case (Cons c cs)
  then show ?case
    by (auto simp: emit_def usable_get_stock_data)
qed

lemma is_fetch_not_display: "is_fetch ev \<Longrightarrow> \<not> is_display ev"
  by (cases ev rule: is_fetch.cases) simp_all


lemma map_of_dict_set:
  "map_of (dict_set d k v) k' = (if k' = k then Some v else map_of d k')"
  by (induction d) auto

lemma keys_dict_set: "fst ` set (dict_set d k v) = insert k (fst ` set d)"
proof -
  have "dom (map_of (dict_set d k v)) = insert k (dom (map_of d))"
    by (auto simp: map_of_dict_set dom_def)
  then show ?thesis
    by (simp add: dom_map_of_conv_image_fst)
qed


lemma load_loop_keys:
  assumes "snd (load_loop P dict per cs sd0 ci0) = Inr (sd, ci)"
  shows "fst ` set sd = fst ` set sd0 \<union> {c \<in> set cs. \<exists>t. map_of dict c = Some t \<and> \<not> fetch_fails P t per}
       \<and> fst ` set ci = fst ` set ci0 \<union> {c \<in> set cs. \<exists>t. map_of dict c = Some t \<and> \<not> fetch_fails P t per}"
  using assms
proof (induction cs arbitrary: sd0 ci0)
  case Nil
  then show ?case by simp
next
  case (Cons c' cs)
  from Cons.prems(1) obtain t where t: "map_of dict c' = Some t"
    by (cases "map_of dict c'") auto
  show ?case
  proof (cases "fetch_fails P t per")
    case True
    then have "snd (load_loop P dict per cs sd0 ci0) = Inr (sd, ci)"
      using Cons.prems(1) t by (simp add: emit_def usable_get_stock_data)
    from Cons.IH [OF this] show ?thesis
      using t True by auto
  next
    case False
    then have "snd (load_loop P dict per cs (dict_set sd0 c' (the (snd (get_stock_data P t per))))
                 (dict_set ci0 c' (snd (get_company_info P t)))) = Inr (sd, ci)"
      using Cons.prems(1) t by (simp add: emit_def usable_get_stock_data)
    from Cons.IH [OF this] show ?thesis
      using t False by (auto simp: keys_dict_set)
  qed
qed

lemma load_loop_in_catalog:
  assumes "set cs \<subseteq> fst ` set dict"
  shows "\<exists>sd ci. snd (load_loop P dict per cs sd0 ci0) = Inr (sd, ci)"
  using assms
proof (induction cs arbitrary: sd0 ci0)
  case Nil
  show ?case by simp
next
  case (Cons c cs)
  then have "c \<in> fst ` set dict" by simp
  then obtain t where "map_of dict c = Some t"
    by (metis map_of_eq_None_iff not_Some_eq)
  then show ?case
    using Cons by (simp add: emit_def)
qed

lemma metric_card_events:
  "metric_card i c entry = Inr evs \<Longrightarrow> \<forall>ev\<in>set evs. is_card ev"
  by (auto simp: metric_card_def bindE_def split: sum.splits)

lemma metric_cards_events:
  "\<forall>ev\<in>set (fst (metric_cards i cs ci)). is_card ev"
proof (induction cs arbitrary: i)
  case Nil
  show ?case by simp
next
  case (Cons c cs)
  show ?case
    using Cons.IH [of "Suc i"] metric_card_events
    by (auto simp: emit_def bindE_def dict_get_def split: sum.splits option.splits)
qed

lemma metric_cards_missing:
  assumes "c \<in> set cs" and "map_of ci c = None"
  shows "\<exists>e. snd (metric_cards i cs ci) = Inl e"
  using assms
proof (induction cs arbitrary: i)
  case Nil
  then show ?case by simp
next
  case (Cons c' cs)
  show ?case
  proof (cases "c' = c")
    case True
    then show ?thesis
      using Cons.prems(2) by (simp add: dict_get_def bindE_def)
  next
    case False
    with Cons.prems have "c \<in> set cs" by simp
    from Cons.IH [OF this Cons.prems(2), of "Suc i"] show ?thesis
      by (auto simp: emit_def split: sum.splits)
  qed
qed

lemma render_page_cards_raise:
  assumes "snd (metric_cards 0 sel ci) = Inl e"
  shows "render_page sel per ct sd ci =
           ([Header CompanyInfo, Columns (length sel)] @ fst (metric_cards 0 sel ci), Inl e)"
  using assms by (simp add: render_page_def andThen_def emit_def)

lemma is_card_not_chart: "is_card ev \<Longrightarrow> ev \<noteq> PlotlyChart f \<and> ev \<noteq> Dataframe rows"
  by (cases ev rule: is_card.cases) simp_all

lemma is_fetch_not_chart: "is_fetch ev \<Longrightarrow> ev \<noteq> PlotlyChart f \<and> ev \<noteq> Dataframe rows"
  by (cases ev rule: is_fetch.cases) simp_all


section \<open>Every fetch fails\<close>

text \<open>
  Claim C6. When at least one company is selected (each from the active catalog) and the
  historical-data fetch fails for every one of them, by raising or by returning an empty
  table, the render ends with the error message and a return: the message is the last
  element of the page, and no metric card, chart or table is among the elements.
\<close>

theorem main_all_fetches_fail:
  assumes sel: "selected_companies \<noteq> []"
    and cat: "set selected_companies \<subseteq> fst ` set (COMPANY_GROUPS company_group)"
    and fail: "\<forall>c\<in>set selected_companies. \<forall>t. map_of (COMPANY_GROUPS company_group) c = Some t \<longrightarrow>
                 fetch_fails P t (period_options selected_period)"
  shows "snd (main P company_group selected_companies selected_period chart_type) = Inr Halted
       \<and> last (fst (main P company_group selected_companies selected_period chart_type)) = Error NoDataLoaded
       \<and> (\<forall>ev\<in>set (fst (main P company_group selected_companies selected_period chart_type)). \<not> is_display ev)"
proof -
  let ?dict = "COMPANY_GROUPS company_group"
  let ?per = "period_options selected_period"
  let ?L = "load_loop P ?dict ?per selected_companies [] []"
  have "\<forall>c\<in>set selected_companies. \<exists>t. map_of ?dict c = Some t \<and> fetch_fails P t ?per"
  proof
    fix c assume c: "c \<in> set selected_companies"
    with cat have "c \<in> fst ` set ?dict" by blast
    then obtain t where "map_of ?dict c = Some t"
      by (metis map_of_eq_None_iff not_Some_eq)
    with fail c show "\<exists>t. map_of ?dict c = Some t \<and> fetch_fails P t ?per" by blast
  qed
  then have res: "snd ?L = Inr ([], [])"
    by (rule load_loop_none_usable)
  have evs: "\<forall>ev\<in>set (fst ?L). \<not> is_display ev"
    using load_loop_events [of P ?dict ?per selected_companies "[]" "[]"] is_fetch_not_display by blast
  have m: "main P company_group selected_companies selected_period chart_type =
             ([Title, Markdown] @ fst ?L @ [Error NoDataLoaded], Inr Halted)"
    using sel res by (simp add: main_def andThen_def emit_def)
  show ?thesis
    using evs by (simp add: m)
qed

theorem main_all_fetches_fail_witness:
  "snd (main offline Top10 [''Apple'', ''Microsoft''] Years3 LineChart) = Inr Halted
   \<and> last (fst (main offline Top10 [''Apple'', ''Microsoft''] Years3 LineChart)) = Error NoDataLoaded"
proof -
  have sel: "[''Apple'', ''Microsoft''] \<noteq> []"
    by simp
  have cat: "set [''Apple'', ''Microsoft''] \<subseteq> fst ` set (COMPANY_GROUPS Top10)"
    by (simp add: TOP_10_COMPANIES_def)
  have fail: "\<forall>c\<in>set [''Apple'', ''Microsoft'']. \<forall>t. map_of (COMPANY_GROUPS Top10) c = Some t \<longrightarrow>
                fetch_fails offline t (period_options Years3)"
    by (simp add: fetch_fails_def offline_def)
  show ?thesis
    using main_all_fetches_fail [OF sel cat fail, of LineChart] by simp
qed

section \<open>One fetch fails\<close>

text \<open>
  The fetch loop drops a company whose fetch failed from \<open>stock_data\<close> and from
  \<open>company_info\<close>, but the metric cards are laid out for every selected company. As soon
  as one selected company was dropped and another was kept, the lookup of the dropped one
  raises KeyError (unless an earlier card already failed to format), and the render ends
  there: no chart and no table is ever produced.
\<close>

lemma main_dropped_company_raises:
  assumes cat: "set selected_companies \<subseteq> fst ` set (COMPANY_GROUPS company_group)"
    and bad: "c \<in> set selected_companies" "map_of (COMPANY_GROUPS company_group) c = Some t"
             "fetch_fails P t (period_options selected_period)"
    and good: "c' \<in> set selected_companies" "map_of (COMPANY_GROUPS company_group) c' = Some t'"
              "\<not> fetch_fails P t' (period_options selected_period)"
  shows "(\<exists>e. snd (main P company_group selected_companies selected_period chart_type) = Inl e)
       \<and> (\<forall>ev\<in>set (fst (main P company_group selected_companies selected_period chart_type)).
            (\<forall>f. ev \<noteq> PlotlyChart f) \<and> (\<forall>rows. ev \<noteq> Dataframe rows))"
proof -
  let ?dict = "COMPANY_GROUPS company_group"
  let ?per = "period_options selected_period"
  let ?L = "load_loop P ?dict ?per selected_companies [] []"
  from load_loop_in_catalog [OF cat] obtain sd ci where L: "snd ?L = Inr (sd, ci)"
    by blast
  from load_loop_keys [OF L] have
    ksd: "fst ` set sd = {c \<in> set selected_companies. \<exists>t. map_of ?dict c = Some t \<and> \<not> fetch_fails P t ?per}"
    and kci: "fst ` set ci = {c \<in> set selected_companies. \<exists>t. map_of ?dict c = Some t \<and> \<not> fetch_fails P t ?per}"
    by simp_all
  from ksd good have "c' \<in> fst ` set sd" by blast
  then have sd: "sd \<noteq> []" by auto
  from kci bad have "c \<notin> fst ` set ci" by auto
  then have "map_of ci c = None"
    by (simp add: map_of_eq_None_iff)
  from metric_cards_missing [OF bad(1) this] obtain e
    where e: "snd (metric_cards 0 selected_companies ci) = Inl e" by blast
  have sel: "selected_companies \<noteq> []" using bad(1) by auto
  have m: "main P company_group selected_companies selected_period chart_type =
             ([Title, Markdown] @ fst ?L @ [Header CompanyInfo, Columns (length selected_companies)]
                @ fst (metric_cards 0 selected_companies ci), Inl e)"
    using sel L sd render_page_cards_raise [OF e]
    by (simp add: main_def andThen_def emit_def)
  show ?thesis
    using load_loop_events [of P ?dict ?per selected_companies "[]" "[]"]
      metric_cards_events [of 0 selected_companies ci] is_card_not_chart is_fetch_not_chart
    by (auto simp: m)
qed


lemmas float_eval = rne_div_def rne_scaled_def ge_pow2_def ilog2_def expo_def pack_def round64_def
  compute_bitlen float_lit_def float_of_int_def bindE_def format_digits_def frac_part_def
  decimal.simps group3.simps digit_char_def shifted_def round_sum_def

lemma format_market_cap_zero: "format_market_cap (PInt 0) = Inr ''$0''"
  by (simp add: format_market_cap_def float_eval)

lemma placeholder_card:
  "metric_card i c [(''name'', PStr ''N/A''), (''sector'', PStr ''N/A''),
                    (''marketCap'', PInt 0), (''currentPrice'', PInt 0)] =
     Inr [Metric i c ''$0.00'' ''$0'', Caption i (PStr ''N/A'')]"
  by (simp add: metric_card_def dict_get_def format_market_cap_zero float_eval)

lemmas flow = main_def emit_def andThen_def get_stock_data_def get_company_info_def usable_def
  TOP_10_COMPANIES_def dict_get_def render_page_def bindE_def

text \<open>
  Claim C1. The claim has the render proceed with the two companies whose fetch succeeded
  when the fetch of one of three selected companies raises or returns an empty table. The
  code does not: with the default selection of the first catalog and a provider that fails
  for the second company only, the page shows the card of the first company and then ends
  with \<open>KeyError: 'Microsoft'\<close>. The cards of the third company, every chart and the
  performance table are missing, in both forms of the failure.
\<close>

theorem main_one_fetch_fails:
  "main flaky Top10 [''Apple'', ''Microsoft'', ''Alphabet (Google)''] Years3 LineChart =
     ([Title, Markdown,
       FetchHistory ''AAPL'' ''3y'', FetchInfo ''AAPL'',
       FetchHistory ''MSFT'' ''3y'', Error (FetchFailed ''MSFT'' (Exn ''timeout'')), FetchInfo ''MSFT'',
       FetchHistory ''GOOGL'' ''3y'', FetchInfo ''GOOGL'',
       Header CompanyInfo, Columns 3,
       Metric 0 ''Apple'' ''$0.00'' ''$0'', Caption 0 (PStr ''N/A'')],
      Inl (KeyError ''Microsoft''))
   \<and> main patchy Top10 [''Apple'', ''Microsoft'', ''Alphabet (Google)''] Years3 LineChart =
     ([Title, Markdown,
       FetchHistory ''AAPL'' ''3y'', FetchInfo ''AAPL'',
       FetchHistory ''MSFT'' ''3y'', FetchInfo ''MSFT'',
       FetchHistory ''GOOGL'' ''3y'', FetchInfo ''GOOGL'',
       Header CompanyInfo, Columns 3,
       Metric 0 ''Apple'' ''$0.00'' ''$0'', Caption 0 (PStr ''N/A'')],
      Inl (KeyError ''Microsoft''))"
  by (simp add: flow flaky_def patchy_def flat_bars_def placeholder_card)

section \<open>The candlestick chart\<close>







lemma format_market_cap_2500000000: "format_market_cap (PInt 2500000000) = Inr ''$2.50B''"
  by (simp add: format_market_cap_def float_eval)




















section \<open>The performance summary\<close>

lemmas series_eval = fsub_def isqrt_def isqrt_bits.simps isqrt_step_def sticky_root_def sqrt_arg_def
  fmax_def fmin_def series_max_def series_min_def series_std_def sample_std_def fsum_def fsquare_def
  dropna_def

lemma percent_change_100_110:
  "format_f False 2 (percent_change (float_lit 100) (float_lit 110)) = ''10.00''"
  by (simp add: float_eval fsub_def percent_change_def)

lemma percent_change_200_180:
  "format_f False 2 (percent_change (float_lit 200) (float_lit 180)) = ''-10.00''"
  by (simp add: float_eval fsub_def percent_change_def)

lemma closes_pair:
  assumes "map Close data = [a, b]"
  shows "data \<noteq> [] \<and> Close (hd data) = a \<and> Close (last data) = b"
proof -
  from assms obtain x y where "data = [x, y]"
    by (cases data; cases "tl data") auto
  with assms show ?thesis by simp
qed

text \<open>
  Claim C3. For every non-empty table the summary row exists, and its total return is
  \<open>(last close - first close) / first close * 100\<close>, each operation rounded in binary64,
  printed with two decimals and a percent sign. Closes \<open>[100, 110]\<close> give \<open>10.00%\<close> and closes
  \<open>[200, 180]\<close> give \<open>-10.00%\<close>. (A first close of zero needs no exclusion here: numpy's
  division then yields an infinity or a NaN, which is printed as such.)
\<close>

theorem performance_row_total_return:
  "(data \<noteq> [] \<longrightarrow>
      (\<exists>r. performance_row company data = Inr r \<and>
           total_return r =
             format_f False 2
               (fmul (fdiv (fsub (Close (last data)) (Close (hd data))) (Close (hd data))) (float_lit 100))
             @ ''%''))
   \<and> (map Close data = [float_lit 100, float_lit 110] \<longrightarrow>
        (\<exists>r. performance_row company data = Inr r \<and> total_return r = ''10.00%''))
   \<and> (map Close data = [float_lit 200, float_lit 180] \<longrightarrow>
        (\<exists>r. performance_row company data = Inr r \<and> total_return r = ''-10.00%''))"
proof (intro conjI impI)
  assume "data \<noteq> []"
  then show "\<exists>r. performance_row company data = Inr r \<and>
           total_return r =
             format_f False 2
               (fmul (fdiv (fsub (Close (last data)) (Close (hd data))) (Close (hd data))) (float_lit 100))
             @ ''%''"
    by (simp add: performance_row_def percent_change_def)
next
  assume "map Close data = [float_lit 100, float_lit 110]"
  from closes_pair [OF this]
  show "\<exists>r. performance_row company data = Inr r \<and> total_return r = ''10.00%''"
    by (simp add: performance_row_def percent_change_100_110)
next
  assume "map Close data = [float_lit 200, float_lit 180]"
  from closes_pair [OF this]
  show "\<exists>r. performance_row company data = Inr r \<and> total_return r = ''-10.00%''"
    by (simp add: performance_row_def percent_change_200_180)
qed

theorem performance_row_total_return_witness:
  "flat_bars [float_lit 100, float_lit 110] \<noteq> []
   \<and> (\<exists>r. performance_row ''Apple'' (flat_bars [float_lit 100, float_lit 110]) = Inr r \<and>
           total_return r = ''10.00%'')
   \<and> (\<exists>r. performance_row ''Apple'' (flat_bars [float_lit 200, float_lit 180]) = Inr r \<and>
           total_return r = ''-10.00%'')"
proof -
  have a: "map Close (flat_bars [float_lit 100, float_lit 110]) = [float_lit 100, float_lit 110]"
    by (simp add: flat_bars_def)
  have b: "map Close (flat_bars [float_lit 200, float_lit 180]) = [float_lit 200, float_lit 180]"
    by (simp add: flat_bars_def)
  have c: "flat_bars [float_lit 100, float_lit 110] \<noteq> []"
    by (simp add: flat_bars_def)
  show ?thesis
    using performance_row_total_return [of "flat_bars [float_lit 100, float_lit 110]" "''Apple''"]
      performance_row_total_return [of "flat_bars [float_lit 200, float_lit 180]" "''Apple''"] a b c
    by blast
qed

section \<open>Extremes and volatility\<close>

lemma max_10_20_30: "series_max [float_lit 10, float_lit 20, float_lit 30] = float_lit 30"
  by (simp add: float_eval series_eval)

lemma min_10_20_30: "series_min [float_lit 10, float_lit 20, float_lit 30] = float_lit 10"
  by (simp add: float_eval series_eval)

lemma std_10_20_30: "series_std [float_lit 10, float_lit 20, float_lit 30] = float_lit 10"
  by (simp add: float_eval series_eval)

lemma format_30: "format_f False 2 (float_lit 30) = ''30.00''"
  by (simp add: float_eval)

lemma format_10: "format_f False 2 (float_lit 10) = ''10.00''"
  by (simp add: float_eval)

text \<open>
  Claim C4. For a table whose closes are \<open>[10, 20, 30]\<close> the summary has the maximum \<open>30\<close>,
  the minimum \<open>10\<close> and the sample standard deviation (divisor \<open>n - 1\<close>) \<open>10\<close>; the row
  prints them as \<open>$30.00\<close>, \<open>$10.00\<close> and \<open>10.00\<close>.
\<close>

theorem performance_row_10_20_30:
  assumes "map Close data = [float_lit 10, float_lit 20, float_lit 30]"
  shows "series_max (map Close data) = float_lit 30
       \<and> series_min (map Close data) = float_lit 10
       \<and> series_std (map Close data) = float_lit 10
       \<and> (\<exists>r. performance_row company data = Inr r \<and>
               highest r = ''$30.00'' \<and> lowest r = ''$10.00'' \<and> volatility r = ''10.00'')"
proof -
  from assms have "data \<noteq> []" by auto
  then show ?thesis
    by (simp add: performance_row_def assms max_10_20_30 min_10_20_30 std_10_20_30 format_30 format_10)
qed

theorem performance_row_10_20_30_witness:
  "series_std (map Close (flat_bars [float_lit 10, float_lit 20, float_lit 30])) = float_lit 10
   \<and> (\<exists>r. performance_row ''Apple'' (flat_bars [float_lit 10, float_lit 20, float_lit 30]) = Inr r \<and>
           highest r = ''$30.00'' \<and> lowest r = ''$10.00'' \<and> volatility r = ''10.00'')"
proof -
  have a: "map Close (flat_bars [float_lit 10, float_lit 20, float_lit 30]) =
             [float_lit 10, float_lit 20, float_lit 30]"
    by (simp add: flat_bars_def)
  show ?thesis
    using performance_row_10_20_30 [OF a, of "''Apple''"] by blast
qed


lemma bitlen_one: "bitlen 1 = 1"
  by (simp add: compute_bitlen)

lemma bitlen_pos: "0 < p \<Longrightarrow> 1 \<le> bitlen p"
  using bitlen_eq_zero_iff [of p] bitlen_nonneg [of p] by linarith

lemma ilog2_int: "0 < p \<Longrightarrow> ilog2 p 1 = bitlen p - 1"
  using bitlen_bounds [of p] bitlen_pos [of p]
  by (simp add: ilog2_def ge_pow2_def bitlen_one)

lemma expo_int: "0 < p \<Longrightarrow> expo p 1 0 = bitlen p - 53"
  using bitlen_pos [of p] by (simp add: expo_def ilog2_int)

lemma rne_div_one: "rne_div x 1 = x"
  by (simp add: rne_div_def)

lemma rne_div_exact: "0 < q \<Longrightarrow> rne_div (n * q) q = n"
  by (simp add: rne_div_def)

lemma rne_div_bounds:
  "p div q \<le> rne_div p q \<and> rne_div p q \<le> p div q + 1"
  by (simp add: rne_div_def)

lemma rne_div_top:
  assumes Q: "0 < Q" and K: "even K" and p: "0 \<le> p" "p < K * (2 * Q)"
  shows "rne_div p (2 * Q) = K \<longleftrightarrow> K * (2 * Q) - Q \<le> p"
proof -
  let ?d = "p div (2 * Q)" and ?r = "p mod (2 * Q)"
  have eq: "p = ?d * (2 * Q) + ?r"
    using div_mult_mod_eq [of p "2 * Q"] by simp
  have r: "0 \<le> ?r" "?r < 2 * Q" using Q by simp_all
  have dK: "?d < K"
  proof (rule ccontr)
    assume "\<not> ?d < K"
    then have "K * (2 * Q) \<le> ?d * (2 * Q)"
      using Q by (intro mult_right_mono) simp_all
    with eq r p(2) show False by linarith
  qed
  show ?thesis
  proof (cases "?d = K - 1")
    case True
    then have odd: "odd ?d" using K by simp
    have "K * (2 * Q) - Q \<le> p \<longleftrightarrow> Q \<le> ?r"
    proof -
      have "p = (K - 1) * (2 * Q) + ?r" using eq True by simp
      then have "p = K * (2 * Q) - 2 * Q + ?r" by (simp add: algebra_simps)
      then show ?thesis by linarith
    qed
    moreover have "rne_div p (2 * Q) = K \<longleftrightarrow> Q \<le> ?r"
      using True odd by (auto simp: rne_div_def)
    ultimately show ?thesis by simp
  next
    case False
    with dK have d2: "?d \<le> K - 2" by simp
    then have "?d * (2 * Q) \<le> (K - 2) * (2 * Q)"
      using Q by (intro mult_right_mono) simp_all
    then have "p < (K - 1) * (2 * Q)"
      using eq r by (simp add: algebra_simps)
    then have "p < K * (2 * Q) - Q"
      using Q by (simp add: algebra_simps)
    moreover have "rne_div p (2 * Q) \<noteq> K"
      using rne_div_bounds [of p "2 * Q"] d2 by linarith
    ultimately show ?thesis by simp
  qed
qed


lemma round64_int:
  assumes "0 < p"
  shows "round64 s p 1 0 = pack s (rne_scaled p 1 (53 - bitlen p)) (bitlen p - 53)"
  using assms by (simp add: round64_def expo_int)

lemma round64_int_small:
  assumes p: "0 < p" and b: "bitlen p \<le> 53"
  shows "round64 s p 1 0 = Finite s (p * 2 ^ nat (53 - bitlen p)) (bitlen p - 53)"
proof -
  have "p < 2 ^ nat (bitlen p)"
    using bitlen_bounds [OF p] by simp
  then have "p * 2 ^ nat (53 - bitlen p) < 2 ^ nat (bitlen p) * 2 ^ nat (53 - bitlen p)"
    by simp
  also have "\<dots> = 2 ^ (nat (bitlen p) + nat (53 - bitlen p))"
    by (simp add: power_add)
  also have "nat (bitlen p) + nat (53 - bitlen p) = 53"
    using b bitlen_nonneg [of p] by simp
  finally have lt: "p * 2 ^ nat (53 - bitlen p) < 2 ^ 53" .
  have "rne_scaled p 1 (53 - bitlen p) = p * 2 ^ nat (53 - bitlen p)"
    using b by (simp add: rne_scaled_def rne_div_one)
  then show ?thesis
    using lt b by (simp add: round64_int [OF p] pack_def)
qed

lemma pack_infinity:
  "pack s m k = Infinity t \<longleftrightarrow> t = s \<and> (971 < k \<or> (k = 971 \<and> m = 2 ^ 53))"
  by (auto simp: pack_def)

lemma pack_cases: "(\<exists>m' k'. pack s m k = Finite s m' k') \<or> pack s m k = Infinity s"
  by (auto simp: pack_def)

lemma round64_int_overflow:
  assumes p: "0 < p"
  shows "round64 s p 1 0 = Infinity s \<longleftrightarrow> 2 ^ 1024 - 2 ^ 970 \<le> p"
proof -
  let ?b = "bitlen p"
  have lo: "2 ^ nat (?b - 1) \<le> p" and hi: "p < 2 ^ nat ?b"
    using bitlen_bounds [OF p] by simp_all
  consider "?b \<le> 1023" | "?b = 1024" | "1025 \<le> ?b" by linarith
  then show ?thesis
  proof cases
    case 1
    then have "(2::int) ^ nat ?b \<le> 2 ^ 1023"
      by (intro power_increasing) simp_all
    with hi have "p < 2 ^ 1023" by linarith
    then have "\<not> 2 ^ 1024 - 2 ^ 970 \<le> p" by simp
    moreover have "round64 s p 1 0 \<noteq> Infinity s"
      using 1 by (simp add: round64_int [OF p] pack_infinity)
    ultimately show ?thesis by simp
  next
    case 2
    have scaled: "rne_scaled p 1 (53 - ?b) = rne_div p (2 * 2 ^ 970)"
      using 2 by (simp add: rne_scaled_def)
    have "p < 2 ^ 1024" using hi 2 by simp
    then have "p < 2 ^ 53 * (2 * 2 ^ 970)" by simp
    from rne_div_top [of "2 ^ 970" "2 ^ 53" p, OF _ _ _ this] p
    have "rne_div p (2 * 2 ^ 970) = 2 ^ 53 \<longleftrightarrow> 2 ^ 53 * (2 * 2 ^ 970) - 2 ^ 970 \<le> p"
      by simp
    then have top: "rne_scaled p 1 (53 - ?b) = 2 ^ 53 \<longleftrightarrow> 2 ^ 1024 - 2 ^ 970 \<le> p"
      by (simp add: scaled)
    have "round64 s p 1 0 = Infinity s \<longleftrightarrow> rne_scaled p 1 (53 - ?b) = 2 ^ 53"
      unfolding round64_int [OF p] pack_infinity using 2 by simp
    then show ?thesis
      using top by simp
  next
    case 3
    then have "(2::int) ^ 1024 \<le> 2 ^ nat (?b - 1)"
      by (intro power_increasing) simp_all
    with lo have "2 ^ 1024 \<le> p" by linarith
    then have "2 ^ 1024 - 2 ^ 970 \<le> p" by simp
    moreover have "round64 s p 1 0 = Infinity s"
      using 3 by (simp add: round64_int [OF p] pack_infinity)
    ultimately show ?thesis by simp
  qed
qed

lemma round64_cases:
  "(\<exists>m k. round64 s p q sh = Finite s m k) \<or> round64 s p q sh = Infinity s"
  using pack_cases by (simp add: round64_def)

lemma float_of_int_overflow:
  "float_of_int n = Inl OverflowError \<longleftrightarrow> 2 ^ 1024 - 2 ^ 970 \<le> \<bar>n\<bar>"
proof (cases "n = 0")
  case True
  then show ?thesis by (simp add: float_of_int_def round64_def)
next
  case False
  then have p: "0 < \<bar>n\<bar>" by simp
  from round64_cases [of "n < 0" "\<bar>n\<bar>" 1 0] show ?thesis
    using round64_int_overflow [OF p, of "n < 0"] by (auto simp: float_of_int_def)
qed

lemma float_of_int_in_range:
  assumes "\<bar>n\<bar> < 2 ^ 1024 - 2 ^ 970"
  shows "\<exists>m k. float_of_int n = Inr (Finite (n < 0) m k)"
proof -
  have "float_of_int n \<noteq> Inl OverflowError"
    using assms by (simp add: float_of_int_overflow)
  then show ?thesis
    using round64_cases [of "n < 0" "\<bar>n\<bar>" 1 0] by (auto simp: float_of_int_def)
qed


section \<open>The market-cap formatter on integers and floats\<close>

lemma int_ge_trillion: "int_ge_float n (float_lit (10 ^ 12)) \<longleftrightarrow> 10 ^ 12 \<le> n"
  by (simp add: float_eval)

lemma int_ge_billion: "int_ge_float n (float_lit (10 ^ 9)) \<longleftrightarrow> 10 ^ 9 \<le> n"
  by (simp add: float_eval)

lemma int_ge_million: "int_ge_float n (float_lit (10 ^ 6)) \<longleftrightarrow> 10 ^ 6 \<le> n"
  by (simp add: float_eval)

lemma float_lit_zero: "float_lit 0 = Finite False 0 (- 1074)"
  by (simp add: float_lit_def round64_def)

lemma format_digits_integral:
  "format_digits True 0 s k = (if s then ''-'' else []) @ group3 (decimal k)"
  by (simp add: format_digits_def frac_part_def)

lemma format_f_exact_int:
  assumes p: "0 < p" and b: "bitlen p \<le> 53"
  shows "format_f True 0 (Finite s (p * 2 ^ nat (53 - bitlen p)) (bitlen p - 53)) =
           (if s then ''-'' else []) @ group3 (decimal (nat p))"
proof (cases "bitlen p = 53")
  case True
  then show ?thesis
    by (simp add: rne_scaled_def rne_div_one format_digits_integral)
next
  case False
  with b have lt: "bitlen p < 53" by simp
  then have "rne_scaled (p * 2 ^ nat (53 - bitlen p)) 1 (bitlen p - 53) =
               rne_div (p * 2 ^ nat (53 - bitlen p)) (2 ^ nat (53 - bitlen p))"
    by (simp add: rne_scaled_def)
  also have "\<dots> = p"
    by (rule rne_div_exact) simp
  finally show ?thesis
    by (simp add: format_digits_integral)
qed

lemma py_format_small_int:
  assumes "\<bar>n\<bar> < 2 ^ 53"
  shows "py_format_f True 0 (PInt n) = Inr ((if n < 0 then ''-'' else []) @ group3 (decimal (nat \<bar>n\<bar>)))"
proof (cases "n = 0")
  case True
  then show ?thesis
    by (simp add: float_of_int_def round64_def bindE_def rne_scaled_def rne_div_def
          format_digits_integral)
next
  case False
  then have p: "0 < \<bar>n\<bar>" by simp
  have b: "bitlen \<bar>n\<bar> \<le> 53"
    using assms by (simp add: bitlen_le_iff_power)
  show ?thesis
    using format_f_exact_int [OF p b, of "n < 0"]
    by (simp add: float_of_int_def round64_int_small [OF p b] bindE_def)
qed


lemma format_market_cap_int:
  "format_market_cap (PInt n) =
     (if 10 ^ 12 \<le> n
        then bindE (float_of_int n) (\<lambda>x. Inr (''$'' @ format_f False 2 (fdiv x (float_lit (10 ^ 12))) @ ''T''))
      else if 10 ^ 9 \<le> n
        then bindE (float_of_int n) (\<lambda>x. Inr (''$'' @ format_f False 2 (fdiv x (float_lit (10 ^ 9))) @ ''B''))
      else if 10 ^ 6 \<le> n
        then bindE (float_of_int n) (\<lambda>x. Inr (''$'' @ format_f False 2 (fdiv x (float_lit (10 ^ 6))) @ ''M''))
      else bindE (py_format_f True 0 (PInt n)) (\<lambda>s. Inr (''$'' @ s)))"
  unfolding format_market_cap_def py_ge.simps py_truediv.simps
    int_ge_trillion int_ge_billion int_ge_million
  by (simp add: bindE_def split: sum.splits)

lemma format_market_cap_float:
  "format_market_cap (PFloat x) =
     Inr (if fge x (float_lit (10 ^ 12)) then ''$'' @ format_f False 2 (fdiv x (float_lit (10 ^ 12))) @ ''T''
          else if fge x (float_lit (10 ^ 9)) then ''$'' @ format_f False 2 (fdiv x (float_lit (10 ^ 9))) @ ''B''
          else if fge x (float_lit (10 ^ 6)) then ''$'' @ format_f False 2 (fdiv x (float_lit (10 ^ 6))) @ ''M''
          else ''$'' @ format_f True 0 x)"
  by (simp add: format_market_cap_def bindE_def)

lemma format_market_cap_overflow:
  assumes "2 ^ 1024 - 2 ^ 970 \<le> \<bar>n\<bar>"
  shows "format_market_cap (PInt n) = Inl OverflowError"
proof -
  have "float_of_int n = Inl OverflowError"
    using assms by (simp add: float_of_int_overflow)
  then show ?thesis
    by (simp add: format_market_cap_int bindE_def)
qed

lemma decimal_nonempty: "decimal n \<noteq> []"
  by (subst decimal.simps) simp

lemma last_decimal: "last (decimal n) = digit_char (n mod 10)"
  by (subst decimal.simps) simp

lemma group3_last:
  assumes "ds \<noteq> []"
  shows "group3 ds \<noteq> [] \<and> last (group3 ds) = last ds"
proof (cases "length ds \<le> 3")
  case True
  then show ?thesis
    using assms by (subst (1 2) group3.simps) simp
next
  case False
  then have "drop (length ds - 3) ds \<noteq> []" by simp
  then show ?thesis
    using False by (subst (1 2) group3.simps) (simp add: last_drop)
qed

lemma digit_char_not_unit:
  assumes "d < 10"
  shows "digit_char d \<notin> {CHR ''T'', CHR ''B'', CHR ''M''}"
proof -
  have "digit_char d \<in> set ''0123456789''"
    unfolding digit_char_def using assms by (intro nth_mem) simp
  then show ?thesis by auto
qed

lemma format_f_integral_last:
  "format_f True 0 x \<noteq> [] \<and> last (format_f True 0 x) \<notin> {CHR ''T'', CHR ''B'', CHR ''M''}"
proof (cases x)
  case (Finite s m e)
  let ?k = "nat (rne_scaled (m * 10 ^ 0) 1 e)"
  have "group3 (decimal ?k) \<noteq> []" and "last (group3 (decimal ?k)) = digit_char (?k mod 10)"
    using group3_last [OF decimal_nonempty, of ?k] by (simp_all add: last_decimal)
  then show ?thesis
    using digit_char_not_unit [of "?k mod 10"] Finite
    by (simp add: format_digits_integral)
next
  case (Infinity s)
  then show ?thesis by simp
next
  case NaN
  then show ?thesis by simp
qed

lemma fge_negative:
  assumes "flt x (float_lit 0)" and "0 < b"
  shows "\<not> fge x (Finite False b eb)"
proof (cases x)
  case (Finite s m e)
  with assms(1) have "\<not> 0 \<le> shifted s m e (min e (- 1074))"
    by (simp add: flt_def float_lit_zero shifted_def)
  then have neg: "(if s then - m else m) < 0"
    by (simp add: shifted_def zero_le_mult_iff)
  have "shifted s m e (min e eb) < 0"
    using neg by (simp add: shifted_def mult_less_0_iff)
  moreover have "0 < shifted False b eb (min e eb)"
    using assms(2) by (simp add: shifted_def)
  ultimately show ?thesis
    using Finite by simp
next
  case (Infinity s)
  with assms(1) show ?thesis
    by (simp add: flt_def float_lit_zero)
next
  case NaN
  with assms(1) show ?thesis
    by (simp add: flt_def)
qed

lemma float_lit_trillion: "float_lit (10 ^ 12) = Finite False 8192000000000000 (- 13)"
  by (simp add: float_eval)

lemma float_lit_billion: "float_lit (10 ^ 9) = Finite False 8388608000000000 (- 23)"
  by (simp add: float_eval)

lemma float_lit_million: "float_lit (10 ^ 6) = Finite False 8589934592000000 (- 33)"
  by (simp add: float_eval)

lemma format_market_cap_negative_float:
  assumes "flt x (float_lit 0)"
  shows "format_market_cap (PFloat x) = Inr (''$'' @ format_f True 0 x)"
proof -
  have "\<not> fge x (float_lit (10 ^ 12))"
    unfolding float_lit_trillion by (rule fge_negative [OF assms]) simp
  moreover have "\<not> fge x (float_lit (10 ^ 9))"
    unfolding float_lit_billion by (rule fge_negative [OF assms]) simp
  moreover have "\<not> fge x (float_lit (10 ^ 6))"
    unfolding float_lit_million by (rule fge_negative [OF assms]) simp
  ultimately show ?thesis
    by (simp add: format_market_cap_float)
qed


lemma format_market_cap_999999999: "format_market_cap (PInt 999999999) = Inr ''$1000.00M''"
  by (simp add: format_market_cap_def float_eval)

lemma format_market_cap_trillion: "format_market_cap (PInt 1000000000000) = Inr ''$1.00T''"
  by (simp add: format_market_cap_def float_eval)

lemma format_market_cap_500: "format_market_cap (PInt 500) = Inr ''$500''"
  by (simp add: format_market_cap_def float_eval)

lemma format_market_cap_small:
  assumes "0 \<le> n" and "n < 10 ^ 6"
  shows "format_market_cap (PInt n) = Inr (''$'' @ group3 (decimal (nat n)))"
proof -
  have "\<bar>n\<bar> < 2 ^ 53" using assms by simp
  from py_format_small_int [OF this] show ?thesis
    using assms by (simp add: format_market_cap_int bindE_def)
qed

text \<open>
  Claim C2, as amended. The formatter is a pure function of its argument. For every
  integer \<open>0 \<le> n < 2^1024 - 2^970\<close> it returns a string with the largest applicable unit:
  from \<open>10^12\<close> on, \<open>$\<close>, the float quotient \<open>float(n) / 1e12\<close> with two decimals and \<open>T\<close>;
  in \<open>[10^9, 10^12)\<close> the same with \<open>1e9\<close> and \<open>B\<close>; in \<open>[10^6, 10^9)\<close> with \<open>1e6\<close> and \<open>M\<close>;
  below \<open>10^6\<close>, \<open>$\<close> and the integer with thousands separators. From \<open>2^1024 - 2^970\<close> on,
  \<open>float(n)\<close> overflows and the formatter raises OverflowError. For every float it returns
  a string, the unit chosen by the same three comparisons. The four examples
  \<open>999,999,999\<close>, \<open>10^12\<close>, \<open>2,500,000,000\<close> and \<open>500\<close> give \<open>$1000.00M\<close>, \<open>$1.00T\<close>,
  \<open>$2.50B\<close> and \<open>$500\<close>.
\<close>

theorem format_market_cap_units:
  "(0 \<le> n \<and> n < 2 ^ 1024 - 2 ^ 970 \<longrightarrow>
      (\<exists>v. float_of_int n = Inr v
         \<and> (10 ^ 12 \<le> n \<longrightarrow>
              format_market_cap (PInt n) =
                Inr (''$'' @ format_f False 2 (fdiv v (float_lit (10 ^ 12))) @ ''T''))
         \<and> (10 ^ 9 \<le> n \<and> n < 10 ^ 12 \<longrightarrow>
              format_market_cap (PInt n) =
                Inr (''$'' @ format_f False 2 (fdiv v (float_lit (10 ^ 9))) @ ''B''))
         \<and> (10 ^ 6 \<le> n \<and> n < 10 ^ 9 \<longrightarrow>
              format_market_cap (PInt n) =
                Inr (''$'' @ format_f False 2 (fdiv v (float_lit (10 ^ 6))) @ ''M''))
         \<and> (n < 10 ^ 6 \<longrightarrow>
              format_market_cap (PInt n) = Inr (''$'' @ group3 (decimal (nat n))))))
   \<and> (2 ^ 1024 - 2 ^ 970 \<le> n \<longrightarrow> format_market_cap (PInt n) = Inl OverflowError)
   \<and> format_market_cap (PFloat x) =
       Inr (if fge x (float_lit (10 ^ 12))
              then ''$'' @ format_f False 2 (fdiv x (float_lit (10 ^ 12))) @ ''T''
            else if fge x (float_lit (10 ^ 9))
              then ''$'' @ format_f False 2 (fdiv x (float_lit (10 ^ 9))) @ ''B''
            else if fge x (float_lit (10 ^ 6))
              then ''$'' @ format_f False 2 (fdiv x (float_lit (10 ^ 6))) @ ''M''
            else ''$'' @ format_f True 0 x)
   \<and> format_market_cap (PInt 999999999) = Inr ''$1000.00M''
   \<and> format_market_cap (PInt 1000000000000) = Inr ''$1.00T''
   \<and> format_market_cap (PInt 2500000000) = Inr ''$2.50B''
   \<and> format_market_cap (PInt 500) = Inr ''$500''"
proof (intro conjI impI)
  assume "0 \<le> n \<and> n < 2 ^ 1024 - 2 ^ 970"
  then have n: "0 \<le> n" and "\<bar>n\<bar> < 2 ^ 1024 - 2 ^ 970" by simp_all
  from float_of_int_in_range [OF this(2)] obtain m k
    where v: "float_of_int n = Inr (Finite (n < 0) m k)" by blast
  show "\<exists>v. float_of_int n = Inr v
         \<and> (10 ^ 12 \<le> n \<longrightarrow>
              format_market_cap (PInt n) =
                Inr (''$'' @ format_f False 2 (fdiv v (float_lit (10 ^ 12))) @ ''T''))
         \<and> (10 ^ 9 \<le> n \<and> n < 10 ^ 12 \<longrightarrow>
              format_market_cap (PInt n) =
                Inr (''$'' @ format_f False 2 (fdiv v (float_lit (10 ^ 9))) @ ''B''))
         \<and> (10 ^ 6 \<le> n \<and> n < 10 ^ 9 \<longrightarrow>
              format_market_cap (PInt n) =
                Inr (''$'' @ format_f False 2 (fdiv v (float_lit (10 ^ 6))) @ ''M''))
         \<and> (n < 10 ^ 6 \<longrightarrow>
              format_market_cap (PInt n) = Inr (''$'' @ group3 (decimal (nat n))))"
    using v n format_market_cap_small [of n]
    by (intro exI [of _ "Finite (n < 0) m k"]) (simp add: format_market_cap_int bindE_def)
next
  assume "2 ^ 1024 - 2 ^ 970 \<le> n"
  then have "2 ^ 1024 - 2 ^ 970 \<le> \<bar>n\<bar>" by simp
  then show "format_market_cap (PInt n) = Inl OverflowError"
    by (rule format_market_cap_overflow)
qed (simp_all only: format_market_cap_float format_market_cap_999999999
       format_market_cap_trillion format_market_cap_2500000000 format_market_cap_500)

theorem format_market_cap_units_witness:
  "(0::int) \<le> 2500000000 \<and> (2500000000::int) < 2 ^ 1024 - 2 ^ 970
   \<and> (\<exists>v. float_of_int 2500000000 = Inr v
          \<and> format_market_cap (PInt 2500000000) =
              Inr (''$'' @ format_f False 2 (fdiv v (float_lit (10 ^ 9))) @ ''B''))
   \<and> format_market_cap (PInt 999999) = Inr (''$'' @ group3 (decimal 999999))"
proof -
  have r: "(0::int) \<le> 2500000000 \<and> (2500000000::int) < 2 ^ 1024 - 2 ^ 970"
    by simp
  have s: "(0::int) \<le> 999999 \<and> (999999::int) < 2 ^ 1024 - 2 ^ 970"
    by simp
  from format_market_cap_units [of 2500000000, THEN conjunct1, rule_format, OF r]
  obtain v where v: "float_of_int 2500000000 = Inr v"
    and b: "10 ^ 9 \<le> (2500000000::int) \<and> (2500000000::int) < 10 ^ 12 \<longrightarrow>
              format_market_cap (PInt 2500000000) =
                Inr (''$'' @ format_f False 2 (fdiv v (float_lit (10 ^ 9))) @ ''B'')"
    by blast
  have "(10::int) ^ 9 \<le> 2500000000 \<and> (2500000000::int) < 10 ^ 12"
    by simp
  with b have "format_market_cap (PInt 2500000000) =
                Inr (''$'' @ format_f False 2 (fdiv v (float_lit (10 ^ 9))) @ ''B'')"
    by blast
  with v have first: "\<exists>v. float_of_int 2500000000 = Inr v
          \<and> format_market_cap (PInt 2500000000) =
              Inr (''$'' @ format_f False 2 (fdiv v (float_lit (10 ^ 9))) @ ''B'')"
    by blast
  from format_market_cap_units [of 999999, THEN conjunct1, rule_format, OF s]
  have "(999999::int) < 10 ^ 6 \<longrightarrow>
          format_market_cap (PInt 999999) = Inr (''$'' @ group3 (decimal (nat 999999)))"
    by blast
  then have second: "format_market_cap (PInt 999999) = Inr (''$'' @ group3 (decimal 999999))"
    by simp
  show ?thesis
    using r first second by blast
qed

text \<open>
  Claim C2 as stated has the formatter return a string for every non-negative numeric
  input. The integer \<open>10^400\<close> is at least \<open>10^12\<close>, so the formatter divides it by
  \<open>1e12\<close>; the conversion of the integer to a float raises OverflowError.
\<close>

theorem format_market_cap_huge_int_raises:
  "format_market_cap (PInt (10 ^ 400)) = Inl OverflowError"
  by (rule format_market_cap_overflow) simp

lemma format_market_cap_minus_2500000000:
  "format_market_cap (PInt (- 2500000000)) = Inr ''$-2,500,000,000''"
  by (simp add: format_market_cap_def float_eval)

lemma format_market_cap_negative_int:
  assumes "n < 0" and "- (2 ^ 1024 - 2 ^ 970) < n"
  shows "\<exists>v. float_of_int n = Inr v \<and> format_market_cap (PInt n) = Inr (''$'' @ format_f True 0 v)"
proof -
  have "\<bar>n\<bar> < 2 ^ 1024 - 2 ^ 970" using assms by simp
  from float_of_int_in_range [OF this] obtain m k
    where "float_of_int n = Inr (Finite (n < 0) m k)" by blast
  then show ?thesis
    using assms(1) by (simp add: format_market_cap_int bindE_def)
qed

lemma format_market_cap_negative_exact:
  assumes "n < 0" and "- (2 ^ 53) < n"
  shows "format_market_cap (PInt n) = Inr (''$-'' @ group3 (decimal (nat (- n))))"
proof -
  have "\<bar>n\<bar> < 2 ^ 53" using assms by simp
  from py_format_small_int [OF this] show ?thesis
    using assms(1) by (simp add: format_market_cap_int bindE_def)
qed

text \<open>
  Claim C9, as amended. For a negative input none of the three unit branches applies.
  For every integer \<open>- (2^1024 - 2^970) < n < 0\<close> the result is \<open>$\<close> and \<open>float(n)\<close> printed
  with thousands separators and no decimals; for \<open>- 2^53 < n < 0\<close> these are the digits of
  \<open>n\<close> itself behind \<open>$-\<close>. For \<open>n \<le> - (2^1024 - 2^970)\<close> the formatter raises
  OverflowError. For every negative float, \<open>-inf\<close> included, the result is \<open>$\<close> and the float
  printed the same way. Whenever a negative input gives a string, the string does not end
  in a unit letter. The example \<open>-2,500,000,000\<close> gives \<open>$-2,500,000,000\<close>.
\<close>

theorem format_market_cap_negative:
  "(n < 0 \<and> - (2 ^ 1024 - 2 ^ 970) < n \<longrightarrow>
      (\<exists>v. float_of_int n = Inr v \<and>
           format_market_cap (PInt n) = Inr (''$'' @ format_f True 0 v)))
   \<and> (n < 0 \<and> - (2 ^ 53) < n \<longrightarrow>
        format_market_cap (PInt n) = Inr (''$-'' @ group3 (decimal (nat (- n)))))
   \<and> (n \<le> - (2 ^ 1024 - 2 ^ 970) \<longrightarrow> format_market_cap (PInt n) = Inl OverflowError)
   \<and> (flt x (float_lit 0) \<longrightarrow>
        format_market_cap (PFloat x) = Inr (''$'' @ format_f True 0 x))
   \<and> (\<forall>s. (n < 0 \<and> format_market_cap (PInt n) = Inr s)
          \<or> (flt x (float_lit 0) \<and> format_market_cap (PFloat x) = Inr s) \<longrightarrow>
          last s \<notin> {CHR ''T'', CHR ''B'', CHR ''M''})
   \<and> format_market_cap (PInt (- 2500000000)) = Inr ''$-2,500,000,000''"
proof (intro conjI impI allI)
  assume "n < 0 \<and> - (2 ^ 1024 - 2 ^ 970) < n"
  then show "\<exists>v. float_of_int n = Inr v \<and>
           format_market_cap (PInt n) = Inr (''$'' @ format_f True 0 v)"
    using format_market_cap_negative_int [of n] by simp
next
  assume "n < 0 \<and> - (2 ^ 53) < n"
  then show "format_market_cap (PInt n) = Inr (''$-'' @ group3 (decimal (nat (- n))))"
    using format_market_cap_negative_exact [of n] by simp
next
  assume "n \<le> - (2 ^ 1024 - 2 ^ 970)"
  then have "2 ^ 1024 - 2 ^ 970 \<le> \<bar>n\<bar>" by simp
  then show "format_market_cap (PInt n) = Inl OverflowError"
    by (rule format_market_cap_overflow)
next
  assume "flt x (float_lit 0)"
  then show "format_market_cap (PFloat x) = Inr (''$'' @ format_f True 0 x)"
    by (rule format_market_cap_negative_float)
next
  fix s
  assume "(n < 0 \<and> format_market_cap (PInt n) = Inr s)
          \<or> (flt x (float_lit 0) \<and> format_market_cap (PFloat x) = Inr s)"
  then obtain v where "s = ''$'' @ format_f True 0 v"
  proof
    assume "n < 0 \<and> format_market_cap (PInt n) = Inr s"
    then have n: "n < 0" and a: "format_market_cap (PInt n) = Inr s"
      by simp_all
    have unfold: "format_market_cap (PInt n) = bindE (float_of_int n) (\<lambda>v. Inr (''$'' @ format_f True 0 v))"
      using n by (simp add: format_market_cap_int bindE_def split: sum.splits)
    obtain v where "float_of_int n = Inr v"
      using a unfolding unfold by (cases "float_of_int n") (simp_all add: bindE_def)
    with a have "s = ''$'' @ format_f True 0 v"
      unfolding unfold by (simp add: bindE_def)
    then show ?thesis by (rule that)
  next
    assume "flt x (float_lit 0) \<and> format_market_cap (PFloat x) = Inr s"
    then have "flt x (float_lit 0)" and a: "format_market_cap (PFloat x) = Inr s"
      by simp_all
    from format_market_cap_negative_float [OF this(1)] a have "s = ''$'' @ format_f True 0 x"
      by simp
    then show ?thesis by (rule that)
  qed
  then show "last s \<notin> {CHR ''T'', CHR ''B'', CHR ''M''}"
    using format_f_integral_last [of v] by simp
next
  show "format_market_cap (PInt (- 2500000000)) = Inr ''$-2,500,000,000''"
    by (rule format_market_cap_minus_2500000000)
qed

theorem format_market_cap_negative_witness:
  "(- 1234567::int) < 0 \<and> - (2 ^ 53) < (- 1234567::int)
   \<and> format_market_cap (PInt (- 1234567)) = Inr (''$-'' @ group3 (decimal 1234567))
   \<and> flt (Infinity True) (float_lit 0)
   \<and> format_market_cap (PFloat (Infinity True)) = Inr ''$-inf''"
proof -
  have a: "(- 1234567::int) < 0 \<and> - (2 ^ 53) < (- 1234567::int)"
    by simp
  have b: "flt (Infinity True) (float_lit 0)"
    by (simp add: flt_def float_lit_zero)
  have "format_market_cap (PInt (- 1234567)) = Inr (''$-'' @ group3 (decimal (nat (- (- 1234567)))))"
    using format_market_cap_negative [of "- 1234567"] a by blast
  moreover have "format_market_cap (PFloat (Infinity True)) = Inr (''$'' @ format_f True 0 (Infinity True))"
    using format_market_cap_negative [of _ "Infinity True"] b by blast
  ultimately show ?thesis
    using a b by simp
qed

text \<open>
  Claim C9 as stated has the formatter total over negative inputs. For the integer
  \<open>- 10^400\<close> the three comparisons are false, and the conversion to a float in the last
  branch raises OverflowError.
\<close>

theorem format_market_cap_huge_negative_raises:
  "format_market_cap (PInt (- (10 ^ 400))) = Inl OverflowError"
  by (rule format_market_cap_overflow) simp


end
